theory Spec2Isabelle
  imports Main "HOL-Library.List_Lexorder" "HOL-Library.AList"
begin

section \<open>Python values used by app.py\<close>

text \<open>
  A Python \<open>str\<close> is a sequence of code points: slicing, \<open>len\<close>, concatenation and
  comparison all work on code points. It is modelled as a list of code-point numbers;
  \<open>str\<close> embeds an ASCII literal of the source. The order on \<open>pystr\<close> is the
  lexicographic order of lists, which is how Python compares strings.
\<close>

type_synonym pystr = "nat list"

definition str :: "string \<Rightarrow> pystr" where
  "str s = map of_char s"

text \<open>The exceptions that the modelled functions can raise.\<close>

datatype error = AttributeError | ValueError | OverflowError

text \<open>
  What the Redis client hands back for a key, a hash field or a value. Line 20 builds the
  client with \<open>decode_responses=True\<close>, so every reply is a Python \<open>str\<close>; without the
  flag it would be \<open>bytes\<close>. Only \<open>bytes\<close> has a \<open>decode\<close> method: on a \<open>str\<close> the
  attribute lookup \<open>.decode\<close> raises \<open>AttributeError\<close>.
\<close>

datatype reply = Str pystr | Bytes pystr

definition decode_responses :: bool where
  "decode_responses = True"

definition from_redis :: "pystr \<Rightarrow> reply" where
  "from_redis s = (if decode_responses then Str s else Bytes s)"

fun decode :: "reply \<Rightarrow> error + pystr" where
  "decode (Bytes b) = Inr b"
| "decode (Str s) = Inl AttributeError"

fun truthy :: "reply \<Rightarrow> bool" where
  "truthy (Str s) = (s \<noteq> [])"
| "truthy (Bytes b) = (b \<noteq> [])"

section \<open>The datetime calls of format\_chat\_timestamp\<close>

text \<open>
  \<open>datetime.now()\<close> is an input of the model: every function that reads the clock takes
  the reading as an argument. A \<open>datetime\<close> has the fields below; its \<open>date()\<close> is the
  triple (year, month, day).
\<close>

record pydatetime =
  year :: nat
  month :: nat
  day :: nat
  hour :: nat
  minute :: nat
  second :: nat
  microsecond :: nat

type_synonym pydate = "nat \<times> nat \<times> nat"

definition date_of :: "pydatetime \<Rightarrow> pydate" where
  "date_of t = (year t, month t, day t)"

definition is_leap :: "nat \<Rightarrow> bool" where
  "is_leap y = (y mod 4 = 0 \<and> (y mod 100 \<noteq> 0 \<or> y mod 400 = 0))"

definition days_in_month :: "nat \<Rightarrow> nat \<Rightarrow> nat" where
  "days_in_month y m =
     (if m = 2 then (if is_leap y then 29 else 28)
      else if m = 4 \<or> m = 6 \<or> m = 9 \<or> m = 11 then 30 else 31)"

definition valid_date :: "pydate \<Rightarrow> bool" where
  "valid_date d = (case d of (y, m, dd) \<Rightarrow>
     1 \<le> y \<and> y \<le> 9999 \<and> 1 \<le> m \<and> m \<le> 12 \<and> 1 \<le> dd \<and> dd \<le> days_in_month y m)"

definition valid_datetime :: "pydatetime \<Rightarrow> bool" where
  "valid_datetime t =
     (valid_date (date_of t) \<and> hour t < 24 \<and> minute t < 60 \<and> second t < 60
      \<and> microsecond t < 1000000)"

text \<open>
  The proleptic Gregorian ordinal of a date (\<open>date.toordinal()\<close>): 0001-01-01 is day 1.
\<close>

definition days_before_year :: "nat \<Rightarrow> nat" where
  "days_before_year y = (y - 1) * 365 + (y - 1) div 4 - (y - 1) div 100 + (y - 1) div 400"

definition days_before_month :: "nat \<Rightarrow> nat \<Rightarrow> nat" where
  "days_before_month y m = sum_list (map (days_in_month y) [1..<m])"

fun toordinal :: "pydate \<Rightarrow> nat" where
  "toordinal (y, m, d) = days_before_year y + days_before_month y m + d"

text \<open>
  \<open>today - timedelta(days=1)\<close>: the previous calendar date. Python computes it through the
  ordinal and raises \<open>OverflowError\<close> when the result would lie before \<open>date.min\<close>.
\<close>

fun prev_day :: "pydate \<Rightarrow> pydate" where
  "prev_day (y, m, d) =
     (if 1 < d then (y, m, d - 1)
      else if 1 < m then (y, m - 1, days_in_month y (m - 1))
      else (y - 1, 12, 31))"

definition minus_one_day :: "pydate \<Rightarrow> error + pydate" where
  "minus_one_day d = (if toordinal d \<le> 1 then Inl OverflowError else Inr (prev_day d))"

text \<open>
  \<open>strftime("%A")\<close>: the full weekday name. \<open>date.weekday()\<close> is
  \<open>(toordinal() + 6) % 7\<close> with Monday as 0.
\<close>

definition weekday :: "pydate \<Rightarrow> nat" where
  "weekday d = (toordinal d + 6) mod 7"

definition day_names :: "pystr list" where
  "day_names = [str ''Monday'', str ''Tuesday'', str ''Wednesday'', str ''Thursday'',
                str ''Friday'', str ''Saturday'', str ''Sunday'']"

definition strftime_A :: "pydatetime \<Rightarrow> pystr" where
  "strftime_A t = day_names ! weekday (date_of t)"

text \<open>
  \<open>strftime("%Y-%m-%d %H:%M")\<close>: the fields in decimal; month, day, hour and minute are
  zero-padded to two digits. \<open>%Y\<close> is the C library's: the year as it is, without
  padding (\<open>999\<close> for the year 999), so only years from 1000 on come out with four digits.
  The year of a \<open>datetime\<close> is at most 9999. Code point 48 is the digit 0.
\<close>

definition digit :: "nat \<Rightarrow> nat" where
  "digit n = 48 + n mod 10"

definition pad2 :: "nat \<Rightarrow> pystr" where
  "pad2 n = [digit (n div 10), digit n]"

definition pad4 :: "nat \<Rightarrow> pystr" where
  "pad4 n = [digit (n div 1000), digit (n div 100), digit (n div 10), digit n]"

definition strftime_Y :: "nat \<Rightarrow> pystr" where
  "strftime_Y y =
     (if y < 10 then [digit y]
      else if y < 100 then pad2 y
      else if y < 1000 then [digit (y div 100), digit (y div 10), digit y]
      else pad4 y)"

definition strftime_ymdhm :: "pydatetime \<Rightarrow> pystr" where
  "strftime_ymdhm t =
     strftime_Y (year t) @ str ''-'' @ pad2 (month t) @ str ''-'' @ pad2 (day t) @ str '' '' @
     pad2 (hour t) @ str '':'' @ pad2 (minute t)"

text \<open>
  The string of a timestamp in the fixed form \<open>YYYY-MM-DD HH:MM\<close>, every field
  zero-padded: the form in which a timestamp is handed to \<open>format_chat_timestamp\<close>.
\<close>

definition timestamp_string :: "pydatetime \<Rightarrow> pystr" where
  "timestamp_string t =
     pad4 (year t) @ str ''-'' @ pad2 (month t) @ str ''-'' @ pad2 (day t) @ str '' '' @
     pad2 (hour t) @ str '':'' @ pad2 (minute t)"

text \<open>
  \<open>datetime.strptime(s, "%Y-%m-%d %H:%M")\<close> on the canonical sixteen-character form:
  it reads the five fields back, sets seconds and microseconds to 0, and raises
  \<open>ValueError\<close> when a field is not a number or is out of range. On strings of this
  form, with ASCII digits, the model is what Python does. Python's \<open>strptime\<close> also
  accepts month, day, hour and minute without the zero padding, more than one blank
  between date and time, and decimal digits outside ASCII (fullwidth digits, for one);
  the model raises \<open>ValueError\<close> for all of these, and nothing below is stated about such
  inputs: \<open>create_new_session\<close> passes only what \<open>strftime\<close> wrote, and the properties of
  the formatter are stated for \<open>timestamp_string\<close>.
\<close>

fun number :: "pystr \<Rightarrow> nat option" where
  "number [] = Some 0"
| "number (c # cs) =
     (if 48 \<le> c \<and> c \<le> 57
      then (case number cs of None \<Rightarrow> None | Some n \<Rightarrow> Some ((c - 48) * 10 ^ length cs + n))
      else None)"

definition strptime_ymdhm :: "pystr \<Rightarrow> error + pydatetime" where
  "strptime_ymdhm s =
     (if length s = 16 \<and> s ! 4 = 45 \<and> s ! 7 = 45 \<and> s ! 10 = 32 \<and> s ! 13 = 58
      then (case (number (take 4 s), number (take 2 (drop 5 s)), number (take 2 (drop 8 s)),
                  number (take 2 (drop 11 s)), number (take 2 (drop 14 s))) of
              (Some y, Some m, Some d, Some h, Some mi) \<Rightarrow>
                (if valid_date (y, m, d) \<and> h < 24 \<and> mi < 60
                 then Inr \<lparr>year = y, month = m, day = d, hour = h, minute = mi,
                           second = 0, microsecond = 0\<rparr>
                 else Inl ValueError)
            | _ \<Rightarrow> Inl ValueError)
      else Inl ValueError)"

text \<open>
  \<open>format_chat_timestamp\<close> (lines 82-99). \<open>now\<close> is the reading of \<open>datetime.now()\<close> on
  line 86. \<open>yesterday\<close> is computed before the comparisons, as in the source.
\<close>

definition format_chat_timestamp :: "pystr \<Rightarrow> pydatetime \<Rightarrow> error + pystr" where
  "format_chat_timestamp timestamp_str now =
     (case strptime_ymdhm timestamp_str of
        Inl e \<Rightarrow> Inl e
      | Inr timestamp \<Rightarrow>
          (let today = date_of now in
           case minus_one_day today of
             Inl e \<Rightarrow> Inl e
           | Inr yesterday \<Rightarrow>
               (let timestamp_date = date_of timestamp in
                if timestamp_date = today then Inr (str ''Today'')
                else if timestamp_date = yesterday then Inr (str ''Yesterday'')
                else Inr (strftime_A timestamp))))"

section \<open>The session records and the Redis store\<close>

text \<open>
  A message and a session are the dictionaries of the source, with exactly the keys the
  source writes. The store keeps each session as \<open>json.dumps\<close> of its dictionary and
  reads it back with \<open>json.loads\<close>; on dictionaries of strings and lists of such
  dictionaries this round trip is the identity, so the hash is modelled as holding the
  session itself. (The one exception are strings in which a lone high surrogate is
  followed by a lone low surrogate: JSON reads the two back as one code point. Such
  strings do not come out of decoded UTF-8 input, and they are outside the model.) A
  stored value is never the empty string, so \<open>if session_data:\<close> tests whether the field
  exists.
\<close>

record message =
  role :: pystr
  content :: pystr

record session =
  sid :: pystr
  title :: pystr
  messages :: "message list"
  created_at :: pystr
  display_time :: pystr

text \<open>
  The two keys the application uses: the hash \<open>teachpy:chat_sessions\<close> (field = session
  id), kept as an association list in the order \<open>hgetall\<close> returns it, and the scalar
  \<open>teachpy:current_session\<close>. The store is taken to be reachable: connection errors are
  outside the model.
\<close>

record redis =
  chat_sessions :: "(pystr \<times> session) list"
  current_session :: "pystr option"

definition hget :: "redis \<Rightarrow> pystr \<Rightarrow> session option" where
  "hget r k = map_of (chat_sessions r) k"

definition hset :: "redis \<Rightarrow> pystr \<Rightarrow> session \<Rightarrow> redis" where
  "hset r k v = r\<lparr>chat_sessions := AList.update k v (chat_sessions r)\<rparr>"

definition hdel :: "redis \<Rightarrow> pystr \<Rightarrow> redis" where
  "hdel r k = r\<lparr>chat_sessions := AList.delete k (chat_sessions r)\<rparr>"

definition hgetall :: "redis \<Rightarrow> (reply \<times> session) list" where
  "hgetall r = map (\<lambda>(k, v). (from_redis k, v)) (chat_sessions r)"

definition redis_get :: "redis \<Rightarrow> reply option" where
  "redis_get r = map_option from_redis (current_session r)"

definition redis_set :: "redis \<Rightarrow> pystr \<Rightarrow> redis" where
  "redis_set r v = r\<lparr>current_session := Some v\<rparr>"

definition redis_delete :: "redis \<Rightarrow> redis" where
  "redis_delete r = r\<lparr>current_session := None\<rparr>"

section \<open>Chat session management (lines 101-173)\<close>

definition get_session_messages :: "pystr \<Rightarrow> redis \<Rightarrow> message list" where
  "get_session_messages session_id r =
     (case hget r session_id of
        Some session_data \<Rightarrow> messages session_data
      | None \<Rightarrow> [])"

definition add_message_to_session :: "pystr \<Rightarrow> message \<Rightarrow> redis \<Rightarrow> redis" where
  "add_message_to_session session_id msg r =
     (case hget r session_id of
        None \<Rightarrow> r
      | Some session0 \<Rightarrow>
          (let session1 = session0\<lparr>messages := messages session0 @ [msg]\<rparr>;
               session2 =
                 (if role msg = str ''user'' \<and> length (messages session1) = 2
                  then session1\<lparr>title := take 30 (content msg) @ str ''...''\<rparr>
                  else session1)
           in hset r session_id session2))"

definition initial_message :: message where
  "initial_message =
     \<lparr>role = str ''assistant'',
      content = str (''Hello! I am TeachPy. To get started, could you please tell me '' @
        ''which version of Python you'' @ [CHR 0x27] @ ''d like to learn (Python 2 or '' @
        ''Python 3) and what you would consider your current skill level: *Beginner*, '' @
        ''*Intermediate*, or *Advanced*?'')\<rparr>"

text \<open>
  \<open>create_new_session\<close> (lines 101-127). \<open>session_id\<close> is the value of
  \<open>str(uuid.uuid4())\<close>, \<open>now\<close> the clock reading of line 105 and \<open>now'\<close> the later
  reading inside \<open>format_chat_timestamp\<close>. An exception of the formatter leaves before
  anything is written.
\<close>

definition create_new_session ::
  "pystr \<Rightarrow> pydatetime \<Rightarrow> pydatetime \<Rightarrow> redis \<Rightarrow> (error + pystr) \<times> redis" where
  "create_new_session session_id now now' r =
     (let timestamp = strftime_ymdhm now in
      case format_chat_timestamp timestamp now' of
        Inl e \<Rightarrow> (Inl e, r)
      | Inr display \<Rightarrow>
          (let session_data =
                 \<lparr>sid = session_id,
                  title = str ''New Session ('' @ display @ str '')'',
                  messages = [],
                  created_at = timestamp,
                  display_time = display\<rparr>;
               r1 = hset r session_id session_data;
               r2 = redis_set r1 session_id;
               r3 = add_message_to_session session_id initial_message r2
           in (Inr session_id, r3)))"

text \<open>
  \<open>get_current_session\<close> (lines 129-134). \<open>not session_id\<close> holds for a missing key and
  for an empty string. The arguments \<open>fresh\<close>, \<open>now\<close> and \<open>now'\<close> are what
  \<open>create_new_session\<close> would read.
\<close>

definition get_current_session ::
  "pystr \<Rightarrow> pydatetime \<Rightarrow> pydatetime \<Rightarrow> redis \<Rightarrow> (error + pystr) \<times> redis" where
  "get_current_session fresh now now' r =
     (case redis_get r of
        None \<Rightarrow> create_new_session fresh now now' r
      | Some session_id \<Rightarrow>
          (if \<not> truthy session_id then create_new_session fresh now now' r
           else (decode session_id, r)))"

text \<open>
  \<open>get_all_sessions\<close> (lines 154-166). The loop builds one summary per hash entry, in the
  order of \<open>hgetall\<close>, and stops at the first exception. \<open>sorted(..., reverse=True)\<close> is
  a stable sort into descending order: entries with equal keys keep their order.
\<close>

record summary =
  sum_id :: pystr
  sum_title :: pystr
  sum_created_at :: pystr
  message_count :: nat

fun summaries :: "(reply \<times> session) list \<Rightarrow> error + summary list" where
  "summaries [] = Inr []"
| "summaries ((session_id, session_data) # rest) =
     (case decode session_id of
        Inl e \<Rightarrow> Inl e
      | Inr i \<Rightarrow>
          (case summaries rest of
             Inl e \<Rightarrow> Inl e
           | Inr sessions \<Rightarrow>
               Inr (\<lparr>sum_id = i, sum_title = title session_data,
                     sum_created_at = created_at session_data,
                     message_count = length (messages session_data)\<rparr> # sessions)))"

definition sorted_reverse :: "('a \<Rightarrow> pystr) \<Rightarrow> 'a list \<Rightarrow> 'a list" where
  "sorted_reverse key xs = rev (sort_key key (rev xs))"

definition get_all_sessions :: "redis \<Rightarrow> error + summary list" where
  "get_all_sessions r =
     (case summaries (hgetall r) of
        Inl e \<Rightarrow> Inl e
      | Inr sessions \<Rightarrow> Inr (sorted_reverse sum_created_at sessions))"

text \<open>
  \<open>delete_session\<close> (lines 168-173). The record is removed first; an exception raised
  afterwards leaves the store with the record gone, so the result carries the store in
  both cases.
\<close>

definition delete_session :: "pystr \<Rightarrow> redis \<Rightarrow> (error + unit) \<times> redis" where
  "delete_session session_id r =
     (let r1 = hdel r session_id in
      case redis_get r1 of
        None \<Rightarrow> (Inr (), r1)
      | Some current \<Rightarrow>
          (if \<not> truthy current then (Inr (), r1)
           else (case decode current of
                   Inl e \<Rightarrow> (Inl e, r1)
                 | Inr c \<Rightarrow>
                     (if c = session_id then (Inr (), redis_delete r1) else (Inr (), r1)))))"

section \<open>The rollback after a failed send (main, lines 277-285)\<close>

text \<open>
  The \<open>except\<close> branch of \<open>main\<close>: when the model endpoint failed, the last message is
  removed again if it is a user message.
\<close>

definition handle_failed_send :: "pystr \<Rightarrow> redis \<Rightarrow> redis" where
  "handle_failed_send current_session_id r =
     (case hget r current_session_id of
        None \<Rightarrow> r
      | Some session0 \<Rightarrow>
          (if messages session0 \<noteq> [] \<and> role (last (messages session0)) = str ''user''
           then hset r current_session_id (session0\<lparr>messages := butlast (messages session0)\<rparr>)
           else r))"

text \<open>
  Sequences of the two operations that change a session's messages, and the titles a
  session shows along such a sequence.
\<close>

datatype op = Append message | FailedSend

fun apply_op :: "pystr \<Rightarrow> op \<Rightarrow> redis \<Rightarrow> redis" where
  "apply_op i (Append m) r = add_message_to_session i m r"
| "apply_op i FailedSend r = handle_failed_send i r"

definition title_of :: "pystr \<Rightarrow> redis \<Rightarrow> pystr option" where
  "title_of i r = map_option title (hget r i)"

fun titles_along :: "pystr \<Rightarrow> op list \<Rightarrow> redis \<Rightarrow> pystr option list" where
  "titles_along i [] r = [title_of i r]"
| "titles_along i (x # xs) r = title_of i r # titles_along i xs (apply_op i x r)"

fun changes :: "'a list \<Rightarrow> nat" where
  "changes (x # y # ys) = (if x = y then 0 else 1) + changes (y # ys)"
| "changes _ = 0"

text \<open>
  The invariant of the data model: the current-session pointer, when present, names a
  session of the store.
\<close>

definition pointer_ok :: "redis \<Rightarrow> bool" where
  "pointer_ok r = (case current_session r of None \<Rightarrow> True | Some p \<Rightarrow> hget r p \<noteq> None)"

section \<open>Concrete inputs\<close>


definition clock_0001 :: pydatetime where
  "clock_0001 = \<lparr>year = 2024, month = 3, day = 1, hour = 0, minute = 1, second = 30,
                 microsecond = 0\<rparr>"

definition no_sessions :: redis where
  "no_sessions = \<lparr>chat_sessions = [], current_session = None\<rparr>"

definition session_u1 :: session where
  "session_u1 = \<lparr>sid = str ''u1'', title = str ''New Session (Today)'',
                 messages = [initial_message], created_at = str ''2024-03-01 00:01'',
                 display_time = str ''Today''\<rparr>"

definition one_session :: redis where
  "one_session = \<lparr>chat_sessions = [(str ''u1'', session_u1)],
                  current_session = Some (str ''u1'')\<rparr>"

definition user_hi :: message where
  "user_hi = \<lparr>role = str ''user'', content = str ''hi''\<rparr>"

definition after_hi :: redis where
  "after_hi = \<lparr>chat_sessions =
                 [(str ''u1'', session_u1\<lparr>title := str ''hi...'',
                                          messages := [initial_message, user_hi]\<rparr>)],
               current_session = Some (str ''u1'')\<rparr>"

section \<open>Properties\<close>

subsection \<open>The store\<close>

lemma decode_from_redis: "decode (from_redis s) = Inl AttributeError"
  by (simp add: from_redis_def decode_responses_def)

lemma truthy_from_redis: "truthy (from_redis s) = (s \<noteq> [])"
  by (simp add: from_redis_def decode_responses_def)

lemma hget_hset: "hget (hset r k v) k' = (if k' = k then Some v else hget r k')"
  by (simp add: hget_def hset_def update_conv')

lemma hget_hdel: "hget (hdel r k) k' = (if k' = k then None else hget r k')"
  by (simp add: hget_def hdel_def delete_conv')

lemma current_session_hset: "current_session (hset r k v) = current_session r"
  by (simp add: hset_def)

lemma current_session_hdel: "current_session (hdel r k) = current_session r"
  by (simp add: hdel_def)

lemma hget_redis_set: "hget (redis_set r v) k = hget r k"
  by (simp add: hget_def redis_set_def)

lemma hget_one_session: "hget one_session (str ''u1'') = Some session_u1"
  by (simp add: hget_def one_session_def)

subsection \<open>Appending a message\<close>

text \<open>
  C6: for a session id that is not in the store, \<open>add_message_to_session\<close> has no error
  branch and returns the store it was given.
\<close>

theorem add_message_missing_session:
  "hget r session_id = None \<Longrightarrow> add_message_to_session session_id msg r = r"
  by (simp add: add_message_to_session_def)

theorem add_message_missing_session_witness:
  "hget one_session (str ''gone'') = None
   \<and> add_message_to_session (str ''gone'') user_hi one_session = one_session"
proof -
  have h: "hget one_session (str ''gone'') = None"
    by (simp add: hget_def one_session_def str_def)
  from add_message_missing_session [OF h] h show ?thesis by simp
qed

lemma add_message_existing:
  "hget r i = Some s \<Longrightarrow>
   hget (add_message_to_session i m r) i =
     Some (if role m = str ''user'' \<and> length (messages s) = 1
           then s\<lparr>messages := messages s @ [m], title := take 30 (content m) @ str ''...''\<rparr>
           else s\<lparr>messages := messages s @ [m]\<rparr>)"
  by (simp add: add_message_to_session_def hget_hset Let_def)

text \<open>
  C10: when the first user message is appended to a session that holds only its greeting,
  the new title is the content cut to 30 characters followed by \<open>...\<close>; the suffix is
  added whether or not anything was cut, so a content of at most 30 characters appears
  whole in front of it.
\<close>

theorem retitle_suffix_unconditional:
  assumes "hget r i = Some s" and "length (messages s) = 1" and "role m = str ''user''"
  shows "title_of i (add_message_to_session i m r) =
           Some ((if length (content m) \<le> 30 then content m else take 30 (content m))
                 @ str ''...'')"
  using assms by (simp add: title_of_def add_message_existing)

theorem retitle_suffix_unconditional_witness:
  "title_of (str ''u1'') (add_message_to_session (str ''u1'') user_hi one_session)
     = Some (str ''hi...'')
   \<and> title_of (str ''u1'')
        (add_message_to_session (str ''u1'')
           \<lparr>role = str ''user'', content = str ''Explain list comprehension in Python''\<rparr>
           one_session)
     = Some (str ''Explain list comprehension in ...'')"
proof -
  have l: "length (messages session_u1) = 1"
    by (simp add: session_u1_def)
  have "title_of (str ''u1'') (add_message_to_session (str ''u1'') user_hi one_session)
          = Some (str ''hi...'')"
    using retitle_suffix_unconditional [OF hget_one_session l, of user_hi]
    by (simp add: user_hi_def str_def)
  moreover have "title_of (str ''u1'')
        (add_message_to_session (str ''u1'')
           \<lparr>role = str ''user'', content = str ''Explain list comprehension in Python''\<rparr>
           one_session)
     = Some (str ''Explain list comprehension in ...'')"
    using retitle_suffix_unconditional [OF hget_one_session l,
        of "\<lparr>role = str ''user'', content = str ''Explain list comprehension in Python''\<rparr>"]
    by (simp add: str_def)
  ultimately show ?thesis by simp
qed

subsection \<open>The rollback after a failed send\<close>

text \<open>
  C4: for an existing session whose last message has role \<open>user\<close>, the rollback writes
  back the same record with that one message removed: the earlier messages and every
  other field stay, the count drops by one, and no other record and not the pointer is
  touched. When the last message is not a user message (or there is none) the store is
  left as it was.
\<close>

theorem failed_send_rollback:
  assumes "hget r i = Some s"
  shows "(if messages s \<noteq> [] \<and> role (last (messages s)) = str ''user''
          then hget (handle_failed_send i r) i = Some (s\<lparr>messages := butlast (messages s)\<rparr>)
               \<and> butlast (messages s) @ [last (messages s)] = messages s
               \<and> length (butlast (messages s)) + 1 = length (messages s)
               \<and> (\<forall>j. j \<noteq> i \<longrightarrow> hget (handle_failed_send i r) j = hget r j)
               \<and> current_session (handle_failed_send i r) = current_session r
          else handle_failed_send i r = r)"
  using assms
  by (auto simp: handle_failed_send_def hget_hset current_session_hset)

theorem failed_send_rollback_witness:
  "hget (handle_failed_send (str ''u1'') after_hi) (str ''u1'')
     = Some (session_u1\<lparr>title := str ''hi...'', messages := [initial_message]\<rparr>)
   \<and> handle_failed_send (str ''u1'') one_session = one_session"
proof -
  have a: "hget after_hi (str ''u1'')
             = Some (session_u1\<lparr>title := str ''hi...'', messages := [initial_message, user_hi]\<rparr>)"
    by (simp add: hget_def after_hi_def)
  have "hget (handle_failed_send (str ''u1'') after_hi) (str ''u1'')
          = Some (session_u1\<lparr>title := str ''hi...'', messages := [initial_message]\<rparr>)"
    using failed_send_rollback [OF a] by (simp add: user_hi_def)
  moreover have "handle_failed_send (str ''u1'') one_session = one_session"
    using failed_send_rollback [OF hget_one_session]
    by (simp add: session_u1_def initial_message_def str_def)
  ultimately show ?thesis by simp
qed

subsection \<open>Creating a session\<close>

lemma role_initial_message: "role initial_message \<noteq> str ''user''"
  by (simp add: initial_message_def str_def)

lemma create_new_session_result:
  "create_new_session u now now' r = (Inr i, r') \<Longrightarrow>
   \<exists>display. format_chat_timestamp (strftime_ymdhm now) now' = Inr display \<and> i = u \<and>
     r' = add_message_to_session u initial_message
            (redis_set (hset r u \<lparr>sid = u, title = str ''New Session ('' @ display @ str '')'',
               messages = [], created_at = strftime_ymdhm now, display_time = display\<rparr>) u)"
  by (auto simp: create_new_session_def Let_def split: sum.splits)

lemma create_new_session_record:
  assumes "create_new_session u now now' r = (Inr i, r')"
  shows "\<exists>display. format_chat_timestamp (strftime_ymdhm now) now' = Inr display \<and> i = u \<and>
     hget r' i = Some \<lparr>sid = u, title = str ''New Session ('' @ display @ str '')'',
               messages = [initial_message], created_at = strftime_ymdhm now,
               display_time = display\<rparr> \<and> current_session r' = Some u"
proof -
  from create_new_session_result [OF assms] obtain display where
    d: "format_chat_timestamp (strftime_ymdhm now) now' = Inr display" and i: "i = u" and
    r': "r' = add_message_to_session u initial_message
            (redis_set (hset r u \<lparr>sid = u, title = str ''New Session ('' @ display @ str '')'',
               messages = [], created_at = strftime_ymdhm now, display_time = display\<rparr>) u)"
    by blast
  let ?s = "\<lparr>sid = u, title = str ''New Session ('' @ display @ str '')'',
               messages = [], created_at = strftime_ymdhm now, display_time = display\<rparr>"
  have g: "hget (redis_set (hset r u ?s) u) u = Some ?s"
    by (simp add: hget_redis_set hget_hset)
  have "hget r' u = Some (?s\<lparr>messages := [initial_message]\<rparr>)"
    unfolding r' using add_message_existing [OF g, of initial_message]
    by (simp add: role_initial_message)
  moreover have "current_session r' = Some u"
    unfolding r' by (simp add: add_message_to_session_def g Let_def current_session_hset)
       (simp add: redis_set_def hset_def)
  ultimately show ?thesis using d i by simp
qed

lemma create_at_0001:
  "create_new_session (str ''u1'') clock_0001 clock_0001 no_sessions = (Inr (str ''u1''), one_session)"
  by (simp add: create_new_session_def clock_0001_def no_sessions_def one_session_def
      session_u1_def format_chat_timestamp_def strftime_ymdhm_def strftime_Y_def
      strptime_ymdhm_def pad2_def
      pad4_def digit_def str_def valid_date_def days_in_month_def is_leap_def date_of_def
      minus_one_day_def days_before_year_def days_before_month_def upt_conv_Cons Let_def
      hset_def hget_def redis_set_def add_message_to_session_def initial_message_def)

text \<open>
  C1: whenever \<open>create_new_session\<close> returns an id, \<open>get_session_messages\<close> on that id
  in the store it leaves gives exactly one message: its role is \<open>assistant\<close> and its
  content is the greeting, written out here character for character (\<open>CHR 0x27\<close> is the
  apostrophe of \<open>you'd\<close>).
\<close>

theorem created_session_has_greeting:
  assumes "create_new_session u now now' r = (Inr i, r')"
  shows "get_session_messages i r' =
           [\<lparr>role = str ''assistant'',
             content =
               str (''Hello! I am TeachPy. To get started, could you please tell me '' @
                 ''which version of Python you'' @ [CHR 0x27] @ ''d like to learn (Python 2 or '' @
                 ''Python 3) and what you would consider your current skill level: '' @
                 ''*Beginner*, *Intermediate*, or *Advanced*?'')\<rparr>]
         \<and> length (get_session_messages i r') = 1"
proof -
  from create_new_session_record [OF assms] have "messages (the (hget r' i)) = [initial_message]"
    and "hget r' i \<noteq> None" by auto
  then show ?thesis
    by (auto simp: get_session_messages_def initial_message_def)
qed

theorem created_session_has_greeting_witness:
  "create_new_session (str ''u1'') clock_0001 clock_0001 no_sessions
     = (Inr (str ''u1''), one_session)
   \<and> get_session_messages (str ''u1'') one_session =
           [\<lparr>role = str ''assistant'',
             content =
               str (''Hello! I am TeachPy. To get started, could you please tell me '' @
                 ''which version of Python you'' @ [CHR 0x27] @ ''d like to learn (Python 2 or '' @
                 ''Python 3) and what you would consider your current skill level: '' @
                 ''*Beginner*, *Intermediate*, or *Advanced*?'')\<rparr>]"
  using created_session_has_greeting [OF create_at_0001] create_at_0001 by blast

subsection \<open>Dates\<close>

lemma digit_range: "48 \<le> digit n \<and> digit n \<le> 57 \<and> digit n - 48 = n mod 10"
  unfolding digit_def by simp

lemma number_digits2: "number [digit a, digit b] = Some (a mod 10 * 10 + b mod 10)"
  using digit_range by simp

lemma number_digits4:
  "number [digit a, digit b, digit c, digit d] =
     Some (a mod 10 * 1000 + (b mod 10 * 100 + (c mod 10 * 10 + d mod 10)))"
  using digit_range by simp

lemma number_pad2: "n < 100 \<Longrightarrow> number (pad2 n) = Some n"
  unfolding pad2_def number_digits2 by simp

lemma four_digits:
  fixes n :: nat
  assumes "n < 10000"
  shows "n div 1000 mod 10 * 1000 + (n div 100 mod 10 * 100 + (n div 10 mod 10 * 10 + n mod 10)) = n"
proof -
  have a: "n div 1000 mod 10 = n div 1000" using assms by simp
  have b: "n div 100 = 10 * (n div 1000) + n div 100 mod 10"
    using div_mult2_eq [of n 100 10] by simp
  have c: "n div 10 = 10 * (n div 100) + n div 10 mod 10"
    using div_mult2_eq [of n 10 10] by simp
  have d: "n = 10 * (n div 10) + n mod 10" by simp
  show ?thesis using a b c d by linarith
qed

lemma number_pad4: "n < 10000 \<Longrightarrow> number (pad4 n) = Some n"
  unfolding pad4_def number_digits4 using four_digits [of n] by simp

lemma length_pad [simp]: "length (pad2 n) = 2" "length (pad4 n) = 4"
  by (simp_all add: pad2_def pad4_def)

lemma days_in_month_le: "days_in_month y m \<le> 31"
  by (simp add: days_in_month_def)


text \<open>Parsing the string of a valid timestamp gives the timestamp back, to the minute.\<close>

lemma strptime_timestamp_string:
  assumes "valid_datetime t"
  shows "strptime_ymdhm (timestamp_string t) = Inr (t\<lparr>second := 0, microsecond := 0\<rparr>)"
proof -
  from assms have v: "valid_date (year t, month t, day t)" and h: "hour t < 24"
    and mi: "minute t < 60"
    by (simp_all add: valid_datetime_def date_of_def)
  from v have y: "year t < 10000" and m: "month t < 100" and d: "day t < 100"
    using days_in_month_le [of "year t" "month t"] by (simp_all add: valid_date_def)
  from h mi have h': "hour t < 100" and mi': "minute t < 100" by simp_all
  let ?s = "timestamp_string t"
  have s: "?s = pad4 (year t) @ 45 # pad2 (month t) @ 45 # pad2 (day t) @ 32 #
                pad2 (hour t) @ 58 # pad2 (minute t)"
    by (simp add: timestamp_string_def str_def)
  have len: "length ?s = 16" by (simp add: s)
  have seps: "?s ! 4 = 45" "?s ! 7 = 45" "?s ! 10 = 32" "?s ! 13 = 58"
    by (simp_all add: s pad2_def pad4_def)
  have f: "take 4 ?s = pad4 (year t)" "take 2 (drop 5 ?s) = pad2 (month t)"
    "take 2 (drop 8 ?s) = pad2 (day t)" "take 2 (drop 11 ?s) = pad2 (hour t)"
    "take 2 (drop 14 ?s) = pad2 (minute t)"
    by (simp_all add: s pad2_def pad4_def)
  show ?thesis
    unfolding strptime_ymdhm_def
    by (simp add: len seps f number_pad4 [OF y] number_pad2 [OF m] number_pad2 [OF d]
        number_pad2 [OF h'] number_pad2 [OF mi'] v h mi)
qed

text \<open>From the year 1000 on, \<open>strftime\<close> writes exactly that string.\<close>

lemma strftime_ymdhm_eq:
  "1000 \<le> year t \<Longrightarrow> strftime_ymdhm t = timestamp_string t"
  by (simp add: strftime_ymdhm_def timestamp_string_def strftime_Y_def)





lemma days_before_year_ge: "2 \<le> y \<Longrightarrow> 365 \<le> days_before_year y"
proof -
  assume "2 \<le> y"
  then have "1 \<le> y - 1" by simp
  have "(y - 1) div 100 \<le> (y - 1) div 4" by (rule div_le_mono2) simp_all
  moreover have "365 \<le> (y - 1) * 365" using \<open>1 \<le> y - 1\<close> by simp
  ultimately show ?thesis unfolding days_before_year_def by linarith
qed

lemma days_before_month_ge: "2 \<le> m \<Longrightarrow> 31 \<le> days_before_month y m"
proof -
  assume "2 \<le> m"
  then have "[1..<m] = 1 # [Suc 1..<m]" by (intro upt_conv_Cons) simp
  then show ?thesis by (simp add: days_before_month_def days_in_month_def)
qed

text \<open>Only \<open>date.min\<close> has ordinal 1, so only there does the subtraction of a day overflow.\<close>

lemma toordinal_min:
  assumes "valid_date d"
  shows "(toordinal d \<le> 1) = (d = (1, 1, 1))"
proof (cases d)
  case (fields y m dd)
  from assms fields have v: "1 \<le> y" "1 \<le> m" "1 \<le> dd" by (simp_all add: valid_date_def)
  show ?thesis
  proof (cases "2 \<le> y")
    case True
    then show ?thesis using days_before_year_ge [OF True] fields by simp
  next
    case False
    with v have y: "y = 1" by simp
    show ?thesis
    proof (cases "2 \<le> m")
      case True
      then show ?thesis using days_before_month_ge [OF True, of y] fields by simp
    next
      case False
      with v have "m = 1" by simp
      then show ?thesis using y v fields
        by (auto simp: days_before_year_def days_before_month_def)
    qed
  qed
qed









subsection \<open>The timestamp formatter\<close>

lemma format_chat_timestamp_eq:
  assumes "valid_datetime ts" and "valid_datetime now"
  shows "format_chat_timestamp (timestamp_string ts) now =
           (if date_of now = (1, 1, 1) then Inl OverflowError
            else Inr (if date_of ts = date_of now then str ''Today''
                      else if date_of ts = prev_day (date_of now) then str ''Yesterday''
                      else day_names ! weekday (date_of ts)))"
proof -
  have v: "valid_date (date_of now)" using assms(2) by (simp add: valid_datetime_def)
  have m: "minus_one_day (date_of now) =
             (if date_of now = (1, 1, 1) then Inl OverflowError else Inr (prev_day (date_of now)))"
    using toordinal_min [OF v] by (simp add: minus_one_day_def)
  have d: "date_of (ts\<lparr>second := 0, microsecond := 0\<rparr>) = date_of ts"
    by (simp add: date_of_def)
  show ?thesis
    by (simp add: format_chat_timestamp_def strptime_timestamp_string [OF assms(1)] m d Let_def
        strftime_A_def)
qed

text \<open>
  With valid clock readings of a year from 1000 on, \<open>create_new_session\<close> returns the id
  it drew.
\<close>

lemma create_new_session_returns:
  assumes "valid_datetime now" and "1000 \<le> year now" and "valid_datetime now'"
    and "1000 \<le> year now'"
  shows "fst (create_new_session u now now' r) = Inr u"
proof -
  have "date_of now' \<noteq> (1, 1, 1)" using assms(4) by (auto simp: date_of_def)
  then show ?thesis
    using format_chat_timestamp_eq [OF assms(1) assms(3)]
    by (simp add: create_new_session_def strftime_ymdhm_eq [OF assms(2)] Let_def)
qed









subsection \<open>The title along a sequence of operations\<close>

lemma new_title_differs: "str ''New Session ('' @ d @ str '')'' \<noteq> take 30 c @ str ''...''"
proof
  assume "str ''New Session ('' @ d @ str '')'' = take 30 c @ str ''...''"
  then have "last (str ''New Session ('' @ d @ str '')'') = last (take 30 c @ str ''...'')"
    by simp
  then show False by (simp add: str_def)
qed

lemma title_of_handle_failed_send: "title_of i (handle_failed_send i r) = title_of i r"
  by (simp add: title_of_def handle_failed_send_def hget_hset split: option.splits)

lemma title_step:
  assumes "title_of i (apply_op i x r) \<noteq> title_of i r"
  shows "\<exists>m. x = Append m \<and> role m = str ''user''
             \<and> length (get_session_messages i (apply_op i x r)) = 2"
proof (cases x)
  case (Append m)
  show ?thesis
  proof (cases "hget r i")
    case None
    with assms Append show ?thesis by (simp add: add_message_to_session_def)
  next
    case (Some s)
    from add_message_existing [OF Some, of m] assms Append Some
    show ?thesis
      by (auto simp: title_of_def get_session_messages_def split: if_splits)
  qed
next
  case FailedSend
  with assms show ?thesis by (simp add: title_of_handle_failed_send)
qed

lemma messages_after_appends:
  "hget r i = Some s \<Longrightarrow>
   \<exists>s'. hget (fold (apply_op i) (map Append ms) r) i = Some s' \<and> messages s' = messages s @ ms"
proof (induction ms arbitrary: r s)
  case Nil
  then show ?case by simp
next
  case (Cons m ms)
  from add_message_existing [OF Cons.prems, of m] obtain s1 where
    s1: "hget (add_message_to_session i m r) i = Some s1" "messages s1 = messages s @ [m]"
    by (cases "role m = str ''user'' \<and> length (messages s) = 1") auto
  from Cons.IH [OF s1(1)] s1(2) show ?case by simp
qed

lemma titles_along_hd: "titles_along i xs r = title_of i r # tl (titles_along i xs r)"
  by (cases xs) simp_all

lemma changes_hd: "changes (t # titles_along i xs r) =
    (if t = title_of i r then 0 else 1) + changes (titles_along i xs r)"
  by (subst (1 2) titles_along_hd) simp

lemma no_change_after_second:
  "hget r i = Some s \<Longrightarrow> 2 \<le> length (messages s) \<Longrightarrow>
   changes (titles_along i (map Append ms) r) = 0"
proof (induction ms arbitrary: r s)
  case Nil
  then show ?case by simp
next
  case (Cons m ms)
  let ?r = "add_message_to_session i m r"
  from add_message_existing [OF Cons.prems(1), of m] Cons.prems(2)
  have s1: "hget ?r i = Some (s\<lparr>messages := messages s @ [m]\<rparr>)" by simp
  then have t: "title_of i ?r = title_of i r"
    using Cons.prems(1) by (simp add: title_of_def)
  have "changes (titles_along i (map Append ms) ?r) = 0"
    using Cons.IH [OF s1] Cons.prems(2) by simp
  then show ?case by (simp add: changes_hd t)
qed

text \<open>
  C2, as the code has it: from creation on, along any sequence of appends and rollbacks,
  the title can change only at an append that makes the message count 2 and whose role
  is \<open>user\<close>; rollbacks and all other appends leave it alone. Along appends alone the
  title changes at exactly that moment, hence at most once. (After a rollback has taken
  the count back to 1, the next user append sets the title again.)
\<close>

theorem title_changes_on_second_message:
  assumes "create_new_session u now now' r = (Inr i, r0)"
  shows "(\<forall>ops x. title_of i (apply_op i x (fold (apply_op i) ops r0))
                     \<noteq> title_of i (fold (apply_op i) ops r0) \<longrightarrow>
            (\<exists>m. x = Append m \<and> role m = str ''user'' \<and>
                 length (get_session_messages i (apply_op i x (fold (apply_op i) ops r0))) = 2))
       \<and> (\<forall>ms m. (title_of i (apply_op i (Append m) (fold (apply_op i) (map Append ms) r0))
                     \<noteq> title_of i (fold (apply_op i) (map Append ms) r0))
                  = (role m = str ''user'' \<and>
                     length (get_session_messages i
                       (apply_op i (Append m) (fold (apply_op i) (map Append ms) r0))) = 2))
       \<and> (\<forall>ms. changes (titles_along i (map Append ms) r0) \<le> 1)"
proof (intro conjI allI)
  fix ops x
  show "title_of i (apply_op i x (fold (apply_op i) ops r0))
          \<noteq> title_of i (fold (apply_op i) ops r0) \<longrightarrow>
        (\<exists>m. x = Append m \<and> role m = str ''user'' \<and>
             length (get_session_messages i (apply_op i x (fold (apply_op i) ops r0))) = 2)"
    using title_step by blast
next
  from create_new_session_record [OF assms] obtain display where
    s0: "hget r0 i = Some \<lparr>sid = u, title = str ''New Session ('' @ display @ str '')'',
               messages = [initial_message], created_at = strftime_ymdhm now,
               display_time = display\<rparr>" (is "_ = Some ?s0")
    by blast
  fix ms m
  let ?before = "fold (apply_op i) (map Append ms) r0"
  from messages_after_appends [OF s0, of ms] obtain s' where
    s': "hget ?before i = Some s'" "messages s' = initial_message # ms" by auto
  have after: "hget (add_message_to_session i m ?before) i =
     Some (if role m = str ''user'' \<and> length (messages s') = 1
           then s'\<lparr>messages := messages s' @ [m], title := take 30 (content m) @ str ''...''\<rparr>
           else s'\<lparr>messages := messages s' @ [m]\<rparr>)"
    by (rule add_message_existing [OF s'(1)])
  show "(title_of i (apply_op i (Append m) ?before) \<noteq> title_of i ?before)
          = (role m = str ''user'' \<and>
             length (get_session_messages i (apply_op i (Append m) ?before)) = 2)"
  proof (cases ms)
    case Nil
    then have "s' = ?s0" using s0 s'(1) by simp
    then show ?thesis using after s'
      by (auto simp: title_of_def get_session_messages_def new_title_differs
          dest: new_title_differs [THEN notE, OF sym])
  next
    case (Cons a as)
    then show ?thesis using after s'
      by (simp add: title_of_def get_session_messages_def)
  qed
next
  from create_new_session_record [OF assms] obtain display where
    s0: "hget r0 i = Some \<lparr>sid = u, title = str ''New Session ('' @ display @ str '')'',
               messages = [initial_message], created_at = strftime_ymdhm now,
               display_time = display\<rparr>"
    by blast
  fix ms
  show "changes (titles_along i (map Append ms) r0) \<le> 1"
  proof (cases ms)
    case Nil
    then show ?thesis by simp
  next
    case (Cons m rest)
    from messages_after_appends [OF s0, of "[m]"] obtain s1 where
      s1: "hget (add_message_to_session i m r0) i = Some s1" "messages s1 = [initial_message, m]"
      by auto
    have "changes (titles_along i (map Append rest) (add_message_to_session i m r0)) = 0"
      by (rule no_change_after_second [OF s1(1)]) (simp add: s1(2))
    then show ?thesis using Cons by (simp add: changes_hd)
  qed
qed

theorem title_changes_on_second_message_witness:
  "create_new_session (str ''u1'') clock_0001 clock_0001 no_sessions
     = (Inr (str ''u1''), one_session)
   \<and> title_of (str ''u1'') (apply_op (str ''u1'') (Append user_hi) one_session)
       \<noteq> title_of (str ''u1'') one_session
   \<and> changes (titles_along (str ''u1'') (map Append [user_hi, initial_message, user_hi])
        one_session) \<le> 1"
proof -
  note t = title_changes_on_second_message [OF create_at_0001]
  from t have "(title_of (str ''u1'')
        (apply_op (str ''u1'') (Append user_hi) (fold (apply_op (str ''u1'')) (map Append []) one_session))
       \<noteq> title_of (str ''u1'') (fold (apply_op (str ''u1'')) (map Append []) one_session))
     = (role user_hi = str ''user'' \<and>
        length (get_session_messages (str ''u1'')
          (apply_op (str ''u1'') (Append user_hi)
             (fold (apply_op (str ''u1'')) (map Append []) one_session))) = 2)"
    by blast
  moreover have "length (get_session_messages (str ''u1'')
        (add_message_to_session (str ''u1'') user_hi one_session)) = 2"
    using add_message_existing [OF hget_one_session, of user_hi]
    by (simp add: get_session_messages_def session_u1_def)
  ultimately have a: "title_of (str ''u1'') (apply_op (str ''u1'') (Append user_hi) one_session)
       \<noteq> title_of (str ''u1'') one_session"
    by (simp add: user_hi_def)
  from t have b: "changes (titles_along (str ''u1'')
        (map Append [user_hi, initial_message, user_hi]) one_session) \<le> 1"
    by blast
  from create_at_0001 a b show ?thesis by blast
qed

text \<open>
  The claim as worded fails once a rollback is part of the sequence: the first user
  message \<open>hi\<close> is rolled back after a failed send, the user then sends \<open>loops\<close>, and the
  title has changed twice.
\<close>

theorem title_changes_twice_after_rollback:
  "titles_along (str ''u1'')
     [Append user_hi, FailedSend, Append \<lparr>role = str ''user'', content = str ''loops''\<rparr>]
     (snd (create_new_session (str ''u1'') clock_0001 clock_0001 no_sessions))
     = [Some (str ''New Session (Today)''), Some (str ''hi...''), Some (str ''hi...''),
        Some (str ''loops...'')]
   \<and> \<not> changes (titles_along (str ''u1'')
          [Append user_hi, FailedSend, Append \<lparr>role = str ''user'', content = str ''loops''\<rparr>]
          (snd (create_new_session (str ''u1'') clock_0001 clock_0001 no_sessions))) \<le> 1"
proof -
  have "titles_along (str ''u1'')
     [Append user_hi, FailedSend, Append \<lparr>role = str ''user'', content = str ''loops''\<rparr>]
     one_session
     = [Some (str ''New Session (Today)''), Some (str ''hi...''), Some (str ''hi...''),
        Some (str ''loops...'')]"
    by (simp add: title_of_def hget_def hset_def add_message_to_session_def
        handle_failed_send_def Let_def str_def one_session_def session_u1_def user_hi_def
        initial_message_def)
  moreover have "snd (create_new_session (str ''u1'') clock_0001 clock_0001 no_sessions)
                  = one_session"
    by (simp add: create_at_0001)
  ultimately have "titles_along (str ''u1'')
     [Append user_hi, FailedSend, Append \<lparr>role = str ''user'', content = str ''loops''\<rparr>]
     (snd (create_new_session (str ''u1'') clock_0001 clock_0001 no_sessions))
     = [Some (str ''New Session (Today)''), Some (str ''hi...''), Some (str ''hi...''),
        Some (str ''loops...'')]"
    by (simp only:)
  then show ?thesis by (simp add: str_def)
qed

subsection \<open>The decode step on replies that are already strings\<close>

text \<open>
  Three functions call \<open>.decode('utf-8')\<close> on a reply of the client. With
  \<open>decode_responses=True\<close> the reply is a \<open>str\<close>, so each of these calls raises
  \<open>AttributeError\<close> as soon as it is reached.
\<close>

lemma pointer_set_raises:
  assumes "current_session r = Some p" and "p \<noteq> []"
  shows "get_current_session fresh now now' r = (Inl AttributeError, r)"
  using assms
  by (simp add: get_current_session_def redis_get_def truthy_from_redis decode_from_redis)

lemma pointer_one_session: "current_session one_session = Some (str ''u1'')" "str ''u1'' \<noteq> []"
  by (simp_all add: one_session_def str_def)

text \<open>
  C3: when the pointer is present (and names an existing session), \<open>get_current_session\<close>
  does not return the pointer's value: it raises \<open>AttributeError\<close> at line 134 and leaves
  the store as it was.
\<close>

theorem get_current_session_raises:
  assumes "current_session r = Some p" and "p \<noteq> []" and "hget r p = Some s"
  shows "get_current_session fresh now now' r = (Inl AttributeError, r)"
  using assms(1,2) by (rule pointer_set_raises)

theorem get_current_session_raises_witness:
  "current_session one_session = Some (str ''u1'')
   \<and> hget one_session (str ''u1'') = Some session_u1
   \<and> get_current_session (str ''u2'') clock_0001 clock_0001 one_session
       = (Inl AttributeError, one_session)"
  using get_current_session_raises [OF pointer_one_session hget_one_session]
    pointer_one_session(1) hget_one_session by blast

text \<open>
  C9: when a first call of \<open>get_current_session\<close> returns an id, it has just created that
  session and set the pointer to it; a second call right after it, on the store the first
  one left, raises \<open>AttributeError\<close> instead of returning the same id.
\<close>

theorem get_current_session_second_call_raises:
  assumes "fresh \<noteq> []"
    and "get_current_session fresh now now' r = (Inr i, r1)"
  shows "i = fresh \<and> get_current_session fresh2 now2 now2' r1 = (Inl AttributeError, r1)"
proof -
  have c: "create_new_session fresh now now' r = (Inr i, r1)"
  proof (cases "current_session r")
    case None
    with assms(2) show ?thesis by (simp add: get_current_session_def redis_get_def)
  next
    case (Some p)
    show ?thesis
    proof (cases "p = []")
      case True
      with Some assms(2) show ?thesis
        by (simp add: get_current_session_def redis_get_def truthy_from_redis)
    next
      case False
      from pointer_set_raises [OF Some False] assms(2) show ?thesis by simp
    qed
  qed
  from create_new_session_record [OF c] have "i = fresh" "current_session r1 = Some fresh"
    by auto
  with pointer_set_raises [OF this(2) assms(1)] show ?thesis by simp
qed

theorem get_current_session_second_call_raises_witness:
  "get_current_session (str ''u1'') clock_0001 clock_0001 no_sessions
     = (Inr (str ''u1''), one_session)
   \<and> get_current_session (str ''u2'') clock_0001 clock_0001 one_session
       = (Inl AttributeError, one_session)"
proof -
  have f: "get_current_session (str ''u1'') clock_0001 clock_0001 no_sessions
     = (Inr (str ''u1''), one_session)"
    by (simp add: get_current_session_def redis_get_def no_sessions_def
        create_at_0001 [unfolded no_sessions_def])
  from get_current_session_second_call_raises [OF pointer_one_session(2) f] f
  show ?thesis by blast
qed

text \<open>
  C7: deleting the session that the pointer names removes the record and then raises
  \<open>AttributeError\<close> at line 172, before the pointer is cleared: the pointer is left
  naming a session that no longer exists.
\<close>

theorem delete_current_session_keeps_pointer:
  assumes "current_session r = Some i" and "i \<noteq> []"
  shows "delete_session i r = (Inl AttributeError, hdel r i)
         \<and> hget (hdel r i) i = None
         \<and> current_session (hdel r i) = Some i
         \<and> \<not> pointer_ok (snd (delete_session i r))"
  using assms
  by (simp add: delete_session_def redis_get_def current_session_hdel truthy_from_redis
      decode_from_redis hget_hdel pointer_ok_def Let_def)

theorem delete_current_session_keeps_pointer_witness:
  "pointer_ok one_session
   \<and> delete_session (str ''u1'') one_session
       = (Inl AttributeError, \<lparr>chat_sessions = [], current_session = Some (str ''u1'')\<rparr>)
   \<and> \<not> pointer_ok (snd (delete_session (str ''u1'') one_session))"
proof -
  have p: "pointer_ok one_session"
    by (simp add: pointer_ok_def pointer_one_session hget_one_session)
  have h: "hdel one_session (str ''u1'') = \<lparr>chat_sessions = [], current_session = Some (str ''u1'')\<rparr>"
    by (simp add: hdel_def one_session_def)
  note d = delete_current_session_keeps_pointer [OF pointer_one_session]
  from d have "delete_session (str ''u1'') one_session
                 = (Inl AttributeError, hdel one_session (str ''u1''))"
    by blast
  with h have d1: "delete_session (str ''u1'') one_session
       = (Inl AttributeError, \<lparr>chat_sessions = [], current_session = Some (str ''u1'')\<rparr>)"
    by (simp only:)
  from d have d2: "\<not> pointer_ok (snd (delete_session (str ''u1'') one_session))"
    by blast
  from p d1 d2 show ?thesis by blast
qed

lemma summaries_raise:
  "xs \<noteq> [] \<Longrightarrow> summaries (map (\<lambda>(k, v). (from_redis k, v)) xs) = Inl AttributeError"
  by (cases xs) (auto simp: decode_from_redis)

text \<open>
  C5: on a store with at least one session, \<open>get_all_sessions\<close> raises \<open>AttributeError\<close>
  at line 160, for the first entry of the hash, and returns no list; only for an empty
  hash does it return (the empty list).
\<close>

theorem get_all_sessions_raises:
  "chat_sessions r \<noteq> [] \<Longrightarrow> get_all_sessions r = Inl AttributeError"
  by (simp add: get_all_sessions_def hgetall_def summaries_raise)

theorem get_all_sessions_raises_witness:
  "chat_sessions one_session \<noteq> [] \<and> get_all_sessions one_session = Inl AttributeError
   \<and> get_all_sessions no_sessions = Inr []"
proof -
  have n: "chat_sessions one_session \<noteq> []" by (simp add: one_session_def)
  have "get_all_sessions no_sessions = Inr []"
    by (simp add: get_all_sessions_def hgetall_def no_sessions_def sorted_reverse_def)
  with get_all_sessions_raises [OF n] n show ?thesis by simp
qed

end
